theory Spec2Isabelle
  imports Main "HOL-Library.Word"
begin

unbundle bit_operations_syntax

section \<open>The gdb command \<open>ptwalk\<close> of pagetablewalk.py\<close>

text \<open>
  The script defines one gdb command, \<open>PageTableWalk\<close>, with the methods \<open>invoke\<close> and
  \<open>ptwalk\<close>. Python integers are unbounded, so every number is an \<open>int\<close>; \<open>>>\<close> is
  \<open>drop_bit\<close> (a floor division by a power of two, also below zero) and \<open>&\<close> is \<open>AND\<close>
  (two's complement for a negative operand), as in Python.

  The command computes nothing it returns: all it does is call gdb and print. A run is
  therefore modelled by the ordered list of what it did, the calls to gdb and the printed
  lines, together with a tag for the \<open>return\<close> statement it left through.
\<close>

subsection \<open>Data\<close>

datatype level = PML4 | PDPT | PD | PT

text \<open>The printed lines, one constructor per \<open>print\<close> statement; numbers are kept as
  numbers (the source prints them through \<open>hex\<close>).\<close>

datatype line =
    Usage
  | Invalid_address
  | Error_reading_CR3
  | CR3_is int
  | Virtual_Address_is int
  | Index_is level int
  | Page_offset_is int
  | Failed_to_read_memory_at int
  | Entry_at level int int
  | Entry_not_present level
  | Page_1GB_detected
  | Page_2MB_detected
  | Physical_Address_is int

text \<open>What a run does, in order: \<open>gdb.execute\<close>, \<open>gdb.parse_and_eval\<close>,
  \<open>gdb.selected_inferior\<close>, \<open>inferior.read_memory\<close> and \<open>print\<close>.\<close>

datatype event =
    Execute string
  | Parse_and_eval string
  | Selected_inferior
  | Read_memory int nat
  | Print line

text \<open>The \<open>return\<close> statement a run of \<open>ptwalk\<close> leaves through, named after the
  conditions of the specification.\<close>

datatype page_size = Page_4KiB | Page_2MiB | Page_1GiB

datatype outcome =
    InvalidArgumentCount
  | InvalidAddress
  | RegisterUnavailable
  | ReadFailedAt level int
  | AbsentAt level
  | Done int page_size

record run =
  outcome :: outcome
  log :: "event list"

text \<open>
  The debugger the command talks to. \<open>string_to_argv\<close> is gdb's tokenizer;
  \<open>parse_and_eval_int e\<close> is \<open>int(gdb.parse_and_eval(e))\<close>, \<open>None\<close> when that raises;
  \<open>read_memory a n\<close> is \<open>inferior.read_memory(a, n).tobytes()\<close>, \<open>None\<close> when it raises;
  \<open>int_max_str_digits\<close> is the interpreter's limit on the digits of a decimal literal
  (\<open>sys.get_int_max_str_digits()\<close>, 0 for no limit). Within one command the register and
  the memory answer as functions of their argument. What they raise is an \<open>Exception\<close>
  (\<open>gdb.error\<close>, \<open>gdb.MemoryError\<close>), which the source catches; an interrupt from the
  keyboard is not modelled. \<open>gdb.execute\<close> of a maintenance packet prints the reply and
  does not raise.
\<close>

record gdb =
  string_to_argv :: "string \<Rightarrow> string list"
  int_max_str_digits :: nat
  parse_and_eval_int :: "string \<Rightarrow> int option"
  read_memory :: "int \<Rightarrow> nat \<Rightarrow> 8 word list option"

subsection \<open>Python's \<open>int(text, 0)\<close>\<close>

text \<open>
  \<open>int(args[0], 0)\<close> is CPython's \<open>PyLong_FromString\<close> with base 0, on an argument of
  ASCII characters (a character above 127 is rejected here; Python also takes the
  decimal digits and spaces of other scripts). It skips leading white space, takes one
  sign, picks the base from the prefix (\<open>0x\<close>, \<open>0o\<close>, \<open>0b\<close>, in either case; a literal
  that starts with \<open>0\<close> and has no such prefix must be zero), allows one underscore after
  the prefix and single underscores between digits, skips trailing white space and
  requires the end of the text. Every failure is a \<open>ValueError\<close>.
\<close>

definition py_isspace :: "char \<Rightarrow> bool" where
  "py_isspace c = (c = CHR '' '' \<or> c = CHR 0x09 \<or> c = CHR 0x0A \<or> c = CHR 0x0B
                    \<or> c = CHR 0x0C \<or> c = CHR 0x0D)"

text \<open>\<open>_PyLong_DigitValue\<close>: 37 for a character that is no digit in any base.\<close>

definition digit_value :: "char \<Rightarrow> nat" where
  "digit_value c =
     (let n = (of_char c :: nat) in
      if 48 \<le> n \<and> n \<le> 57 then n - 48
      else if 97 \<le> n \<and> n \<le> 122 then n - 87
      else if 65 \<le> n \<and> n \<le> 90 then n - 55
      else 37)"

text \<open>The character at a position of a C string: the terminator at and after its end.\<close>

definition char_at :: "string \<Rightarrow> nat \<Rightarrow> char" where
  "char_at s i = (if i < length s then s ! i else CHR 0x00)"

text \<open>
  The digit loop: \<open>prev\<close> is the character before, \<open>digits\<close> counts the digits read and
  \<open>z\<close> is their value. It stops at the first character that is neither a digit of the
  base nor an underscore, and fails on a doubled or trailing underscore.
\<close>

fun scan_digits :: "nat \<Rightarrow> char \<Rightarrow> nat \<Rightarrow> int \<Rightarrow> string \<Rightarrow> (nat \<times> int \<times> string) option" where
  "scan_digits base prev digits z [] =
     (if prev = CHR ''_'' then None else Some (digits, z, []))"
| "scan_digits base prev digits z (c # cs) =
     (if c = CHR ''_'' then
        (if prev = CHR ''_'' then None else scan_digits base c digits z cs)
      else if digit_value c < base then
        scan_digits base c (digits + 1) (z * int base + int (digit_value c)) cs
      else if prev = CHR ''_'' then None
      else Some (digits, z, c # cs))"

definition py_int_base0 :: "nat \<Rightarrow> string \<Rightarrow> int option" where
  "py_int_base0 max_str_digits text =
     (let str = dropWhile py_isspace text;
          sign = (if char_at str 0 = CHR ''-'' then - 1 else 1 :: int);
          str = (if char_at str 0 = CHR ''+'' \<or> char_at str 0 = CHR ''-'' then tl str else str);
          base = (if char_at str 0 \<noteq> CHR ''0'' then 10
                  else if char_at str 1 = CHR ''x'' \<or> char_at str 1 = CHR ''X'' then 16
                  else if char_at str 1 = CHR ''o'' \<or> char_at str 1 = CHR ''O'' then 8
                  else if char_at str 1 = CHR ''b'' \<or> char_at str 1 = CHR ''B'' then 2
                  else 10 :: nat);
          error_if_nonzero = (char_at str 0 = CHR ''0'' \<and> base = 10);
          str = (if char_at str 0 = CHR ''0'' \<and> base \<noteq> 10
                 then (if char_at (drop 2 str) 0 = CHR ''_'' then drop 3 str else drop 2 str)
                 else str)
      in if char_at str 0 = CHR ''_'' then None
         else case scan_digits base (CHR 0x00) 0 0 str of
                None \<Rightarrow> None
              | Some (digits, z, rest) \<Rightarrow>
                  if base = 10 \<and> 640 < digits \<and> 0 < max_str_digits \<and> max_str_digits < digits
                  then None
                  else if error_if_nonzero \<and> z \<noteq> 0 then None
                  else if digits = 0 then None
                  else if dropWhile py_isspace rest \<noteq> [] then None
                  else Some (sign * z))"

subsection \<open>The page table walk\<close>

definition entry_size :: int where
  "entry_size = 8"

text \<open>Lines 54 to 58: the four table indices and the page offset.\<close>

record paging_indices =
  pml4_index :: int
  pdpt_index :: int
  pd_index :: int
  pt_index :: int
  page_offset :: int

definition decode :: "int \<Rightarrow> paging_indices" where
  "decode vaddr =
     \<lparr>pml4_index = drop_bit 39 vaddr AND 0x1FF,
      pdpt_index = drop_bit 30 vaddr AND 0x1FF,
      pd_index = drop_bit 21 vaddr AND 0x1FF,
      pt_index = drop_bit 12 vaddr AND 0x1FF,
      page_offset = vaddr AND 0xFFF\<rparr>"

text \<open>\<open>int.from_bytes(mem, byteorder="little")\<close>.\<close>

definition from_bytes_little :: "8 word list \<Rightarrow> int" where
  "from_bytes_little mem = foldr (\<lambda>b n. uint b + 256 * n) mem 0"

text \<open>The nested function \<open>read_entry\<close>: the entry, or \<open>None\<close> after printing the
  failure, and what the call did.\<close>

definition read_entry :: "gdb \<Rightarrow> int \<Rightarrow> int option \<times> event list" where
  "read_entry g address =
     (case read_memory g address (nat entry_size) of
        Some mem \<Rightarrow> (Some (from_bytes_little mem), [Read_memory address (nat entry_size)])
      | None \<Rightarrow> (None, [Read_memory address (nat entry_size),
                         Print (Failed_to_read_memory_at address)]))"

text \<open>Lines 43 to 149 of \<open>ptwalk\<close>: everything after the address has been parsed.\<close>

definition ptwalk_vaddr :: "gdb \<Rightarrow> int \<Rightarrow> run" where
  "ptwalk_vaddr g vaddr =
     (case parse_and_eval_int g ''$cr3'' of
        None \<Rightarrow> \<lparr>outcome = RegisterUnavailable,
                 log = [Parse_and_eval ''$cr3'', Print Error_reading_CR3]\<rparr>
      | Some cr3_val \<Rightarrow>
          let ix = decode vaddr;
              log0 = [Parse_and_eval ''$cr3'', Print (CR3_is cr3_val),
                      Print (Virtual_Address_is vaddr),
                      Print (Index_is PML4 (pml4_index ix)), Print (Index_is PDPT (pdpt_index ix)),
                      Print (Index_is PD (pd_index ix)), Print (Index_is PT (pt_index ix)),
                      Print (Page_offset_is (page_offset ix)), Selected_inferior];
              pml4_base = cr3_val AND 0xFFFFFFFFF000;
              pml4_entry_addr = pml4_base + pml4_index ix * entry_size;
              (pml4_read, did1) = read_entry g pml4_entry_addr
          in (case pml4_read of
               None \<Rightarrow> \<lparr>outcome = ReadFailedAt PML4 pml4_entry_addr, log = log0 @ did1\<rparr>
             | Some pml4_entry \<Rightarrow>
          let log1 = log0 @ did1 @ [Print (Entry_at PML4 pml4_entry_addr pml4_entry)]
          in if pml4_entry AND 0x1 = 0
             then \<lparr>outcome = AbsentAt PML4, log = log1 @ [Print (Entry_not_present PML4)]\<rparr>
             else
          let pdpt_base = pml4_entry AND 0xFFFFFFFFF000;
              pdpt_entry_addr = pdpt_base + pdpt_index ix * entry_size;
              (pdpt_read, did2) = read_entry g pdpt_entry_addr
          in (case pdpt_read of
               None \<Rightarrow> \<lparr>outcome = ReadFailedAt PDPT pdpt_entry_addr, log = log1 @ did2\<rparr>
             | Some pdpt_entry \<Rightarrow>
          let log2 = log1 @ did2 @ [Print (Entry_at PDPT pdpt_entry_addr pdpt_entry)]
          in if pdpt_entry AND 0x1 = 0
             then \<lparr>outcome = AbsentAt PDPT, log = log2 @ [Print (Entry_not_present PDPT)]\<rparr>
             else if pdpt_entry AND push_bit 7 1 \<noteq> 0
             then let phys_addr = (pdpt_entry AND 0xFFFFFC0000000) + (vaddr AND 0x3FFFFFFF)
                  in \<lparr>outcome = Done phys_addr Page_1GiB,
                      log = log2 @ [Print Page_1GB_detected, Print (Physical_Address_is phys_addr)]\<rparr>
             else
          let pd_base = pdpt_entry AND 0xFFFFFFFFF000;
              pd_entry_addr = pd_base + pd_index ix * entry_size;
              (pd_read, did3) = read_entry g pd_entry_addr
          in (case pd_read of
               None \<Rightarrow> \<lparr>outcome = ReadFailedAt PD pd_entry_addr, log = log2 @ did3\<rparr>
             | Some pd_entry \<Rightarrow>
          let log3 = log2 @ did3 @ [Print (Entry_at PD pd_entry_addr pd_entry)]
          in if pd_entry AND 0x1 = 0
             then \<lparr>outcome = AbsentAt PD, log = log3 @ [Print (Entry_not_present PD)]\<rparr>
             else if pd_entry AND push_bit 7 1 \<noteq> 0
             then let phys_addr = (pd_entry AND 0xFFFFFFE00000) + (vaddr AND 0x1FFFFF)
                  in \<lparr>outcome = Done phys_addr Page_2MiB,
                      log = log3 @ [Print Page_2MB_detected, Print (Physical_Address_is phys_addr)]\<rparr>
             else
          let pt_base = pd_entry AND 0xFFFFFFFFF000;
              pt_entry_addr = pt_base + pt_index ix * entry_size;
              (pt_read, did4) = read_entry g pt_entry_addr
          in (case pt_read of
               None \<Rightarrow> \<lparr>outcome = ReadFailedAt PT pt_entry_addr, log = log3 @ did4\<rparr>
             | Some pt_entry \<Rightarrow>
          let log4 = log3 @ did4 @ [Print (Entry_at PT pt_entry_addr pt_entry)]
          in if pt_entry AND 0x1 = 0
             then \<lparr>outcome = AbsentAt PT, log = log4 @ [Print (Entry_not_present PT)]\<rparr>
             else
          let page_base = pt_entry AND 0xFFFFFFFFF000;
              phys_addr = page_base + page_offset ix
          in \<lparr>outcome = Done phys_addr Page_4KiB,
              log = log4 @ [Print (Physical_Address_is phys_addr)]\<rparr>)))))"

text \<open>Lines 28 to 41 of \<open>ptwalk\<close>: the argument count and the address, then the walk.\<close>

definition ptwalk :: "gdb \<Rightarrow> string \<Rightarrow> run" where
  "ptwalk g arg =
     (let args = string_to_argv g arg
      in if length args \<noteq> 1 then \<lparr>outcome = InvalidArgumentCount, log = [Print Usage]\<rparr>
         else case py_int_base0 (int_max_str_digits g) (args ! 0) of
                None \<Rightarrow> \<lparr>outcome = InvalidAddress, log = [Print Invalid_address]\<rparr>
              | Some vaddr \<Rightarrow> ptwalk_vaddr g vaddr)"



subsection \<open>What a log shows\<close>

text \<open>The addresses read from memory, the register reads, and the trace: one record
  (level, entry address, raw entry) for each printed entry line.\<close>

fun reads :: "event list \<Rightarrow> int list" where
  "reads [] = []"
| "reads (Read_memory a n # es) = a # reads es"
| "reads (e # es) = reads es"


fun trace :: "event list \<Rightarrow> (level \<times> int \<times> int) list" where
  "trace [] = []"
| "trace (Print (Entry_at l a e) # es) = (l, a, e) # trace es"
| "trace (e # es) = trace es"


text \<open>What lines 43 to 70 do when the register can be read: the register read, the
  echo of the register and of the address, the indices and the offset, and the
  selection of the inferior.\<close>

definition prologue :: "int \<Rightarrow> int \<Rightarrow> event list" where
  "prologue cr3_val vaddr =
     [Parse_and_eval ''$cr3'', Print (CR3_is cr3_val), Print (Virtual_Address_is vaddr),
      Print (Index_is PML4 (pml4_index (decode vaddr))),
      Print (Index_is PDPT (pdpt_index (decode vaddr))),
      Print (Index_is PD (pd_index (decode vaddr))),
      Print (Index_is PT (pt_index (decode vaddr))),
      Print (Page_offset_is (page_offset (decode vaddr))), Selected_inferior]"

subsection \<open>The two forms of an address the specification names\<close>









subsection \<open>A page table image to run the command on\<close>

text \<open>
  A tokenizer that splits at blanks, and a debugger whose \<open>cr3\<close> is \<open>0x1018\<close> and whose
  memory holds four tables: a PML4 at \<open>0x1000\<close>, a PDPT at \<open>0x2000\<close>, a PD at \<open>0x3000\<close>
  and a PT at \<open>0x4000\<close>; every other address cannot be read. The bytes are as in memory,
  least significant first. Among the entries are absent ones (bit 0 clear), a 1 GiB page
  and two 2 MiB pages (bit 7 set), entries with bit 48 set and one with bit 63 set.
\<close>

fun split_words :: "string \<Rightarrow> string \<Rightarrow> string list" where
  "split_words w [] = (if w = [] then [] else [w])"
| "split_words w (c # cs) =
     (if c = CHR '' '' then (if w = [] then split_words [] cs else w # split_words [] cs)
      else split_words (w @ [c]) cs)"

definition words_of :: "string \<Rightarrow> string list" where
  "words_of s = split_words [] s"

definition example_memory :: "(int \<times> 8 word list) list" where
  "example_memory =
     [(0x1000, [0x02, 0x20, 0, 0, 0, 0, 0, 0]),
      (0x1008, [0x03, 0x20, 0, 0, 0, 0, 0, 0]),
      (0x1010, [0x03, 0x20, 0, 0, 0, 0, 0x01, 0]),
      (0x2000, [0, 0, 0, 0, 0, 0, 0, 0]),
      (0x2008, [0xE3, 0, 0, 0x40, 0, 0, 0x01, 0x80]),
      (0x2010, [0x03, 0x30, 0, 0, 0, 0, 0, 0]),
      (0x3000, [0x02, 0x40, 0, 0, 0, 0, 0, 0]),
      (0x3008, [0x83, 0, 0xE0, 0, 0, 0, 0, 0]),
      (0x3010, [0x83, 0, 0xE0, 0, 0, 0, 0x01, 0]),
      (0x3018, [0x03, 0x40, 0, 0, 0, 0, 0, 0]),
      (0x4000, [0, 0, 0, 0, 0, 0, 0, 0]),
      (0x4020, [0x03, 0x50, 0, 0, 0, 0, 0, 0x80])]"

definition example_gdb :: gdb where
  "example_gdb =
     \<lparr>string_to_argv = words_of,
      int_max_str_digits = 4300,
      parse_and_eval_int = map_of [(''$cr3'', 0x1018)],
      read_memory = (\<lambda>address length.
                       if length = 8 then map_of example_memory address else None)\<rparr>"

subsection \<open>Bit fields, as the specification names them\<close>

text \<open>\<open>bits x hi lo\<close> is the number that bits \<open>hi:lo\<close> of \<open>x\<close> form, and
  \<open>masked_to_bits x hi lo\<close> is \<open>x\<close> with every bit outside \<open>hi:lo\<close> cleared.\<close>

definition bits :: "int \<Rightarrow> nat \<Rightarrow> nat \<Rightarrow> int" where
  "bits x hi lo = x div 2 ^ lo mod 2 ^ (Suc hi - lo)"

definition masked_to_bits :: "int \<Rightarrow> nat \<Rightarrow> nat \<Rightarrow> int" where
  "masked_to_bits x hi lo = bits x hi lo * 2 ^ lo"

section \<open>Properties\<close>

subsection \<open>The masks of the source as bit fields\<close>

lemma and_low_bits: "(x::int) AND (2 ^ n - 1) = x mod 2 ^ n"
  by (simp only: mask_eq_exp_minus_1 [symmetric] take_bit_eq_mask [symmetric] take_bit_eq_mod)

lemma index_bits: "drop_bit lo (v::int) AND 0x1FF = bits v (lo + 8) lo"
  using and_low_bits [of "drop_bit lo v" 9] by (simp add: bits_def drop_bit_eq_div)

lemma offset_bits: "(v::int) AND 0xFFF = bits v 11 0"
  using and_low_bits [of v 12] by (simp add: bits_def)

lemma bits_take_drop: "bits x hi lo = take_bit (Suc hi - lo) (drop_bit lo x)"
  by (simp add: bits_def take_bit_eq_mod drop_bit_eq_div)

lemma reassemble:
  "push_bit 39 (bits v 47 39) OR push_bit 30 (bits v 38 30) OR push_bit 21 (bits v 29 21)
     OR push_bit 12 (bits v 20 12) OR bits v 11 0 = bits v 47 0"
  unfolding bits_take_drop
proof (rule bit_eqI)
  fix n :: nat
  consider "n < 12" | "12 \<le> n" "n < 21" | "21 \<le> n" "n < 30" | "30 \<le> n" "n < 39"
    | "39 \<le> n" "n < 48" | "48 \<le> n"
    by linarith
  then show "bit (push_bit 39 (take_bit (Suc 47 - 39) (drop_bit 39 v))
        OR push_bit 30 (take_bit (Suc 38 - 30) (drop_bit 30 v))
        OR push_bit 21 (take_bit (Suc 29 - 21) (drop_bit 21 v))
        OR push_bit 12 (take_bit (Suc 20 - 12) (drop_bit 12 v))
        OR take_bit (Suc 11 - 0) (drop_bit 0 v)) n
      = bit (take_bit (Suc 47 - 0) (drop_bit 0 v)) n"
    by cases (auto simp add: bit_simps)
qed

lemma and_field:
  fixes x :: int
  assumes "lo \<le> hi"
  shows "x AND (2 ^ Suc hi - 2 ^ lo) = masked_to_bits x hi lo"
proof -
  have "(2::int) ^ Suc hi - 2 ^ lo = push_bit lo (mask (Suc hi - lo))"
    using assms by (simp add: push_bit_eq_mult mask_eq_exp_minus_1 algebra_simps flip: power_add)
  moreover have "x AND push_bit lo (mask (Suc hi - lo))
      = push_bit lo (take_bit (Suc hi - lo) (drop_bit lo x))"
    by (rule bit_eqI) (auto simp add: bit_simps)
  moreover have "push_bit lo (take_bit (Suc hi - lo) (drop_bit lo x)) = masked_to_bits x hi lo"
    by (simp only: masked_to_bits_def bits_take_drop push_bit_eq_mult)
  ultimately show ?thesis by simp
qed


lemma and_0xFFFFFFE00000: "(x::int) AND 0xFFFFFFE00000 = masked_to_bits x 47 21"
  using and_field [of 21 47 x] by simp

lemma and_0xFFFFFC0000000: "(x::int) AND 0xFFFFFC0000000 = masked_to_bits x 51 30"
  using and_field [of 30 51 x] by simp

lemma and_0x3FFFFFFF: "(x::int) AND 0x3FFFFFFF = bits x 29 0"
  using and_low_bits [of x 30] by (simp add: bits_def)

lemma and_0x1FFFFF: "(x::int) AND 0x1FFFFF = bits x 20 0"
  using and_low_bits [of x 21] by (simp add: bits_def)

lemma present_bit: "((x::int) AND 0x1 = 0) = (\<not> bit x 0)"
  by (simp add: and_one_eq bit_0 mod_2_eq_odd)

lemma huge_bit: "((x::int) AND 128 = 0) = (\<not> bit x 7)"
  using bit_iff_and_push_bit_not_eq_0 [of x 7] by simp

lemma read_entry_Some:
  "fst (read_entry g a) = Some e \<Longrightarrow> read_entry g a = (Some e, [Read_memory a 8])"
  by (auto simp add: read_entry_def entry_size_def split: option.splits)

lemma read_entry_None:
  "fst (read_entry g a) = None \<Longrightarrow>
   read_entry g a = (None, [Read_memory a 8, Print (Failed_to_read_memory_at a)])"
  by (auto simp add: read_entry_def entry_size_def split: option.splits)

lemma ptwalk_parsed:
  "string_to_argv g arg = [a] \<Longrightarrow> py_int_base0 (int_max_str_digits g) a = Some vaddr \<Longrightarrow>
   ptwalk g arg = ptwalk_vaddr g vaddr"
  by (simp add: ptwalk_def)

subsection \<open>The walk, one path at a time\<close>

text \<open>Each lemma follows one path through lines 43 to 149, under the answers of the
  debugger that select it, and gives the whole run.\<close>

lemma no_register:
  assumes "parse_and_eval_int g ''$cr3'' = None"
  shows "ptwalk_vaddr g vaddr
           = \<lparr>outcome = RegisterUnavailable,
              log = [Parse_and_eval ''$cr3'', Print Error_reading_CR3]\<rparr>"
  using assms by (simp add: ptwalk_vaddr_def)

lemma unreadable_PML4:
  assumes "parse_and_eval_int g ''$cr3'' = Some cr3_val"
    and "a1 = (cr3_val AND 0xFFFFFFFFF000) + pml4_index (decode vaddr) * 8"
    and "fst (read_entry g a1) = None"
  shows "ptwalk_vaddr g vaddr
           = \<lparr>outcome = ReadFailedAt PML4 a1,
              log = prologue cr3_val vaddr
                @ [Read_memory a1 8, Print (Failed_to_read_memory_at a1)]\<rparr>"
proof -
  note r = read_entry_None [OF assms(3)]
  show ?thesis
    unfolding ptwalk_vaddr_def prologue_def
    using assms(1) assms(2) [symmetric]
    by (simp add: Let_def entry_size_def r present_bit huge_bit)
qed

lemma absent_at_PML4:
  assumes "parse_and_eval_int g ''$cr3'' = Some cr3_val"
    and "a1 = (cr3_val AND 0xFFFFFFFFF000) + pml4_index (decode vaddr) * 8"
    and "fst (read_entry g a1) = Some e1"
    and "\<not> bit e1 0"
  shows "ptwalk_vaddr g vaddr
           = \<lparr>outcome = AbsentAt PML4,
              log = prologue cr3_val vaddr
                @ [Read_memory a1 8, Print (Entry_at PML4 a1 e1),
                   Print (Entry_not_present PML4)]\<rparr>"
proof -
  note r = read_entry_Some [OF assms(3)]
  show ?thesis
    unfolding ptwalk_vaddr_def prologue_def
    using assms(1,4) assms(2) [symmetric]
    by (simp add: Let_def entry_size_def r present_bit huge_bit)
qed

lemma unreadable_PDPT:
  assumes "parse_and_eval_int g ''$cr3'' = Some cr3_val"
    and "a1 = (cr3_val AND 0xFFFFFFFFF000) + pml4_index (decode vaddr) * 8"
    and "fst (read_entry g a1) = Some e1"
    and "bit e1 0"
    and "a2 = (e1 AND 0xFFFFFFFFF000) + pdpt_index (decode vaddr) * 8"
    and "fst (read_entry g a2) = None"
  shows "ptwalk_vaddr g vaddr
           = \<lparr>outcome = ReadFailedAt PDPT a2,
              log = prologue cr3_val vaddr
                @ [Read_memory a1 8, Print (Entry_at PML4 a1 e1), Read_memory a2 8,
                   Print (Failed_to_read_memory_at a2)]\<rparr>"
proof -
  note r = read_entry_Some [OF assms(3)]
    read_entry_None [OF assms(6)]
  show ?thesis
    unfolding ptwalk_vaddr_def prologue_def
    using assms(1,4) assms(2,5) [symmetric]
    by (simp add: Let_def entry_size_def r present_bit huge_bit)
qed

lemma absent_at_PDPT:
  assumes "parse_and_eval_int g ''$cr3'' = Some cr3_val"
    and "a1 = (cr3_val AND 0xFFFFFFFFF000) + pml4_index (decode vaddr) * 8"
    and "fst (read_entry g a1) = Some e1"
    and "bit e1 0"
    and "a2 = (e1 AND 0xFFFFFFFFF000) + pdpt_index (decode vaddr) * 8"
    and "fst (read_entry g a2) = Some e2"
    and "\<not> bit e2 0"
  shows "ptwalk_vaddr g vaddr
           = \<lparr>outcome = AbsentAt PDPT,
              log = prologue cr3_val vaddr
                @ [Read_memory a1 8, Print (Entry_at PML4 a1 e1), Read_memory a2 8,
                   Print (Entry_at PDPT a2 e2), Print (Entry_not_present PDPT)]\<rparr>"
proof -
  note r = read_entry_Some [OF assms(3)]
    read_entry_Some [OF assms(6)]
  show ?thesis
    unfolding ptwalk_vaddr_def prologue_def
    using assms(1,4,7) assms(2,5) [symmetric]
    by (simp add: Let_def entry_size_def r present_bit huge_bit)
qed

lemma page_1GiB:
  assumes "parse_and_eval_int g ''$cr3'' = Some cr3_val"
    and "a1 = (cr3_val AND 0xFFFFFFFFF000) + pml4_index (decode vaddr) * 8"
    and "fst (read_entry g a1) = Some e1"
    and "bit e1 0"
    and "a2 = (e1 AND 0xFFFFFFFFF000) + pdpt_index (decode vaddr) * 8"
    and "fst (read_entry g a2) = Some e2"
    and "bit e2 0"
    and "bit e2 7"
  shows "ptwalk_vaddr g vaddr
           = \<lparr>outcome = Done ((e2 AND 0xFFFFFC0000000) + (vaddr AND 0x3FFFFFFF)) Page_1GiB,
              log = prologue cr3_val vaddr
                @ [Read_memory a1 8, Print (Entry_at PML4 a1 e1), Read_memory a2 8,
                   Print (Entry_at PDPT a2 e2), Print Page_1GB_detected,
                   Print (Physical_Address_is ((e2 AND 0xFFFFFC0000000) + (vaddr AND 0x3FFFFFFF)))]\<rparr>"
proof -
  note r = read_entry_Some [OF assms(3)]
    read_entry_Some [OF assms(6)]
  show ?thesis
    unfolding ptwalk_vaddr_def prologue_def
    using assms(1,4,7,8) assms(2,5) [symmetric]
    by (simp add: Let_def entry_size_def r present_bit huge_bit)
qed

lemma unreadable_PD:
  assumes "parse_and_eval_int g ''$cr3'' = Some cr3_val"
    and "a1 = (cr3_val AND 0xFFFFFFFFF000) + pml4_index (decode vaddr) * 8"
    and "fst (read_entry g a1) = Some e1"
    and "bit e1 0"
    and "a2 = (e1 AND 0xFFFFFFFFF000) + pdpt_index (decode vaddr) * 8"
    and "fst (read_entry g a2) = Some e2"
    and "bit e2 0"
    and "\<not> bit e2 7"
    and "a3 = (e2 AND 0xFFFFFFFFF000) + pd_index (decode vaddr) * 8"
    and "fst (read_entry g a3) = None"
  shows "ptwalk_vaddr g vaddr
           = \<lparr>outcome = ReadFailedAt PD a3,
              log = prologue cr3_val vaddr
                @ [Read_memory a1 8, Print (Entry_at PML4 a1 e1), Read_memory a2 8,
                   Print (Entry_at PDPT a2 e2), Read_memory a3 8,
                   Print (Failed_to_read_memory_at a3)]\<rparr>"
proof -
  note r = read_entry_Some [OF assms(3)]
    read_entry_Some [OF assms(6)]
    read_entry_None [OF assms(10)]
  show ?thesis
    unfolding ptwalk_vaddr_def prologue_def
    using assms(1,4,7,8) assms(2,5,9) [symmetric]
    by (simp add: Let_def entry_size_def r present_bit huge_bit)
qed

lemma absent_at_PD:
  assumes "parse_and_eval_int g ''$cr3'' = Some cr3_val"
    and "a1 = (cr3_val AND 0xFFFFFFFFF000) + pml4_index (decode vaddr) * 8"
    and "fst (read_entry g a1) = Some e1"
    and "bit e1 0"
    and "a2 = (e1 AND 0xFFFFFFFFF000) + pdpt_index (decode vaddr) * 8"
    and "fst (read_entry g a2) = Some e2"
    and "bit e2 0"
    and "\<not> bit e2 7"
    and "a3 = (e2 AND 0xFFFFFFFFF000) + pd_index (decode vaddr) * 8"
    and "fst (read_entry g a3) = Some e3"
    and "\<not> bit e3 0"
  shows "ptwalk_vaddr g vaddr
           = \<lparr>outcome = AbsentAt PD,
              log = prologue cr3_val vaddr
                @ [Read_memory a1 8, Print (Entry_at PML4 a1 e1), Read_memory a2 8,
                   Print (Entry_at PDPT a2 e2), Read_memory a3 8,
                   Print (Entry_at PD a3 e3), Print (Entry_not_present PD)]\<rparr>"
proof -
  note r = read_entry_Some [OF assms(3)]
    read_entry_Some [OF assms(6)]
    read_entry_Some [OF assms(10)]
  show ?thesis
    unfolding ptwalk_vaddr_def prologue_def
    using assms(1,4,7,8,11) assms(2,5,9) [symmetric]
    by (simp add: Let_def entry_size_def r present_bit huge_bit)
qed

lemma page_2MiB:
  assumes "parse_and_eval_int g ''$cr3'' = Some cr3_val"
    and "a1 = (cr3_val AND 0xFFFFFFFFF000) + pml4_index (decode vaddr) * 8"
    and "fst (read_entry g a1) = Some e1"
    and "bit e1 0"
    and "a2 = (e1 AND 0xFFFFFFFFF000) + pdpt_index (decode vaddr) * 8"
    and "fst (read_entry g a2) = Some e2"
    and "bit e2 0"
    and "\<not> bit e2 7"
    and "a3 = (e2 AND 0xFFFFFFFFF000) + pd_index (decode vaddr) * 8"
    and "fst (read_entry g a3) = Some e3"
    and "bit e3 0"
    and "bit e3 7"
  shows "ptwalk_vaddr g vaddr
           = \<lparr>outcome = Done ((e3 AND 0xFFFFFFE00000) + (vaddr AND 0x1FFFFF)) Page_2MiB,
              log = prologue cr3_val vaddr
                @ [Read_memory a1 8, Print (Entry_at PML4 a1 e1), Read_memory a2 8,
                   Print (Entry_at PDPT a2 e2), Read_memory a3 8,
                   Print (Entry_at PD a3 e3), Print Page_2MB_detected,
                   Print (Physical_Address_is ((e3 AND 0xFFFFFFE00000) + (vaddr AND 0x1FFFFF)))]\<rparr>"
proof -
  note r = read_entry_Some [OF assms(3)]
    read_entry_Some [OF assms(6)]
    read_entry_Some [OF assms(10)]
  show ?thesis
    unfolding ptwalk_vaddr_def prologue_def
    using assms(1,4,7,8,11,12) assms(2,5,9) [symmetric]
    by (simp add: Let_def entry_size_def r present_bit huge_bit)
qed

lemma unreadable_PT:
  assumes "parse_and_eval_int g ''$cr3'' = Some cr3_val"
    and "a1 = (cr3_val AND 0xFFFFFFFFF000) + pml4_index (decode vaddr) * 8"
    and "fst (read_entry g a1) = Some e1"
    and "bit e1 0"
    and "a2 = (e1 AND 0xFFFFFFFFF000) + pdpt_index (decode vaddr) * 8"
    and "fst (read_entry g a2) = Some e2"
    and "bit e2 0"
    and "\<not> bit e2 7"
    and "a3 = (e2 AND 0xFFFFFFFFF000) + pd_index (decode vaddr) * 8"
    and "fst (read_entry g a3) = Some e3"
    and "bit e3 0"
    and "\<not> bit e3 7"
    and "a4 = (e3 AND 0xFFFFFFFFF000) + pt_index (decode vaddr) * 8"
    and "fst (read_entry g a4) = None"
  shows "ptwalk_vaddr g vaddr
           = \<lparr>outcome = ReadFailedAt PT a4,
              log = prologue cr3_val vaddr
                @ [Read_memory a1 8, Print (Entry_at PML4 a1 e1), Read_memory a2 8,
                   Print (Entry_at PDPT a2 e2), Read_memory a3 8,
                   Print (Entry_at PD a3 e3), Read_memory a4 8,
                   Print (Failed_to_read_memory_at a4)]\<rparr>"
proof -
  note r = read_entry_Some [OF assms(3)]
    read_entry_Some [OF assms(6)]
    read_entry_Some [OF assms(10)]
    read_entry_None [OF assms(14)]
  show ?thesis
    unfolding ptwalk_vaddr_def prologue_def
    using assms(1,4,7,8,11,12) assms(2,5,9,13) [symmetric]
    by (simp add: Let_def entry_size_def r present_bit huge_bit)
qed

lemma absent_at_PT:
  assumes "parse_and_eval_int g ''$cr3'' = Some cr3_val"
    and "a1 = (cr3_val AND 0xFFFFFFFFF000) + pml4_index (decode vaddr) * 8"
    and "fst (read_entry g a1) = Some e1"
    and "bit e1 0"
    and "a2 = (e1 AND 0xFFFFFFFFF000) + pdpt_index (decode vaddr) * 8"
    and "fst (read_entry g a2) = Some e2"
    and "bit e2 0"
    and "\<not> bit e2 7"
    and "a3 = (e2 AND 0xFFFFFFFFF000) + pd_index (decode vaddr) * 8"
    and "fst (read_entry g a3) = Some e3"
    and "bit e3 0"
    and "\<not> bit e3 7"
    and "a4 = (e3 AND 0xFFFFFFFFF000) + pt_index (decode vaddr) * 8"
    and "fst (read_entry g a4) = Some e4"
    and "\<not> bit e4 0"
  shows "ptwalk_vaddr g vaddr
           = \<lparr>outcome = AbsentAt PT,
              log = prologue cr3_val vaddr
                @ [Read_memory a1 8, Print (Entry_at PML4 a1 e1), Read_memory a2 8,
                   Print (Entry_at PDPT a2 e2), Read_memory a3 8,
                   Print (Entry_at PD a3 e3), Read_memory a4 8, Print (Entry_at PT a4 e4),
                   Print (Entry_not_present PT)]\<rparr>"
proof -
  note r = read_entry_Some [OF assms(3)]
    read_entry_Some [OF assms(6)]
    read_entry_Some [OF assms(10)]
    read_entry_Some [OF assms(14)]
  show ?thesis
    unfolding ptwalk_vaddr_def prologue_def
    using assms(1,4,7,8,11,12,15) assms(2,5,9,13) [symmetric]
    by (simp add: Let_def entry_size_def r present_bit huge_bit)
qed

lemma page_4KiB:
  assumes "parse_and_eval_int g ''$cr3'' = Some cr3_val"
    and "a1 = (cr3_val AND 0xFFFFFFFFF000) + pml4_index (decode vaddr) * 8"
    and "fst (read_entry g a1) = Some e1"
    and "bit e1 0"
    and "a2 = (e1 AND 0xFFFFFFFFF000) + pdpt_index (decode vaddr) * 8"
    and "fst (read_entry g a2) = Some e2"
    and "bit e2 0"
    and "\<not> bit e2 7"
    and "a3 = (e2 AND 0xFFFFFFFFF000) + pd_index (decode vaddr) * 8"
    and "fst (read_entry g a3) = Some e3"
    and "bit e3 0"
    and "\<not> bit e3 7"
    and "a4 = (e3 AND 0xFFFFFFFFF000) + pt_index (decode vaddr) * 8"
    and "fst (read_entry g a4) = Some e4"
    and "bit e4 0"
  shows "ptwalk_vaddr g vaddr
           = \<lparr>outcome = Done ((e4 AND 0xFFFFFFFFF000) + page_offset (decode vaddr)) Page_4KiB,
              log = prologue cr3_val vaddr
                @ [Read_memory a1 8, Print (Entry_at PML4 a1 e1), Read_memory a2 8,
                   Print (Entry_at PDPT a2 e2), Read_memory a3 8,
                   Print (Entry_at PD a3 e3), Read_memory a4 8, Print (Entry_at PT a4 e4),
                   Print (Physical_Address_is ((e4 AND 0xFFFFFFFFF000) + page_offset (decode vaddr)))]\<rparr>"
proof -
  note r = read_entry_Some [OF assms(3)]
    read_entry_Some [OF assms(6)]
    read_entry_Some [OF assms(10)]
    read_entry_Some [OF assms(14)]
  show ?thesis
    unfolding ptwalk_vaddr_def prologue_def
    using assms(1,4,7,8,11,12,15) assms(2,5,9,13) [symmetric]
    by (simp add: Let_def entry_size_def r present_bit huge_bit)
qed

text \<open>The twelve paths are all there are.\<close>

lemma walk_cases:
  obtains
    (RegisterUnavailable) "parse_and_eval_int g ''$cr3'' = None"
      "ptwalk_vaddr g vaddr
         = \<lparr>outcome = RegisterUnavailable,
            log = [Parse_and_eval ''$cr3'', Print Error_reading_CR3]\<rparr>"
  | (ReadFailedAt_PML4) cr3_val a1 where
      "parse_and_eval_int g ''$cr3'' = Some cr3_val"
      "a1 = (cr3_val AND 0xFFFFFFFFF000) + pml4_index (decode vaddr) * 8"
      "fst (read_entry g a1) = None"
      "ptwalk_vaddr g vaddr
         = \<lparr>outcome = ReadFailedAt PML4 a1,
            log = prologue cr3_val vaddr
              @ [Read_memory a1 8, Print (Failed_to_read_memory_at a1)]\<rparr>"
  | (AbsentAt_PML4) cr3_val a1 e1 where
      "parse_and_eval_int g ''$cr3'' = Some cr3_val"
      "a1 = (cr3_val AND 0xFFFFFFFFF000) + pml4_index (decode vaddr) * 8"
      "fst (read_entry g a1) = Some e1"
      "\<not> bit e1 0"
      "ptwalk_vaddr g vaddr
         = \<lparr>outcome = AbsentAt PML4,
            log = prologue cr3_val vaddr
              @ [Read_memory a1 8, Print (Entry_at PML4 a1 e1),
                 Print (Entry_not_present PML4)]\<rparr>"
  | (ReadFailedAt_PDPT) cr3_val a1 e1 a2 where
      "parse_and_eval_int g ''$cr3'' = Some cr3_val"
      "a1 = (cr3_val AND 0xFFFFFFFFF000) + pml4_index (decode vaddr) * 8"
      "fst (read_entry g a1) = Some e1"
      "bit e1 0"
      "a2 = (e1 AND 0xFFFFFFFFF000) + pdpt_index (decode vaddr) * 8"
      "fst (read_entry g a2) = None"
      "ptwalk_vaddr g vaddr
         = \<lparr>outcome = ReadFailedAt PDPT a2,
            log = prologue cr3_val vaddr
              @ [Read_memory a1 8, Print (Entry_at PML4 a1 e1), Read_memory a2 8,
                 Print (Failed_to_read_memory_at a2)]\<rparr>"
  | (AbsentAt_PDPT) cr3_val a1 e1 a2 e2 where
      "parse_and_eval_int g ''$cr3'' = Some cr3_val"
      "a1 = (cr3_val AND 0xFFFFFFFFF000) + pml4_index (decode vaddr) * 8"
      "fst (read_entry g a1) = Some e1"
      "bit e1 0"
      "a2 = (e1 AND 0xFFFFFFFFF000) + pdpt_index (decode vaddr) * 8"
      "fst (read_entry g a2) = Some e2"
      "\<not> bit e2 0"
      "ptwalk_vaddr g vaddr
         = \<lparr>outcome = AbsentAt PDPT,
            log = prologue cr3_val vaddr
              @ [Read_memory a1 8, Print (Entry_at PML4 a1 e1), Read_memory a2 8,
                 Print (Entry_at PDPT a2 e2), Print (Entry_not_present PDPT)]\<rparr>"
  | (Done_1GiB) cr3_val a1 e1 a2 e2 where
      "parse_and_eval_int g ''$cr3'' = Some cr3_val"
      "a1 = (cr3_val AND 0xFFFFFFFFF000) + pml4_index (decode vaddr) * 8"
      "fst (read_entry g a1) = Some e1"
      "bit e1 0"
      "a2 = (e1 AND 0xFFFFFFFFF000) + pdpt_index (decode vaddr) * 8"
      "fst (read_entry g a2) = Some e2"
      "bit e2 0"
      "bit e2 7"
      "ptwalk_vaddr g vaddr
         = \<lparr>outcome = Done ((e2 AND 0xFFFFFC0000000) + (vaddr AND 0x3FFFFFFF)) Page_1GiB,
            log = prologue cr3_val vaddr
              @ [Read_memory a1 8, Print (Entry_at PML4 a1 e1), Read_memory a2 8,
                 Print (Entry_at PDPT a2 e2), Print Page_1GB_detected,
                 Print (Physical_Address_is ((e2 AND 0xFFFFFC0000000) + (vaddr AND 0x3FFFFFFF)))]\<rparr>"
  | (ReadFailedAt_PD) cr3_val a1 e1 a2 e2 a3 where
      "parse_and_eval_int g ''$cr3'' = Some cr3_val"
      "a1 = (cr3_val AND 0xFFFFFFFFF000) + pml4_index (decode vaddr) * 8"
      "fst (read_entry g a1) = Some e1"
      "bit e1 0"
      "a2 = (e1 AND 0xFFFFFFFFF000) + pdpt_index (decode vaddr) * 8"
      "fst (read_entry g a2) = Some e2"
      "bit e2 0"
      "\<not> bit e2 7"
      "a3 = (e2 AND 0xFFFFFFFFF000) + pd_index (decode vaddr) * 8"
      "fst (read_entry g a3) = None"
      "ptwalk_vaddr g vaddr
         = \<lparr>outcome = ReadFailedAt PD a3,
            log = prologue cr3_val vaddr
              @ [Read_memory a1 8, Print (Entry_at PML4 a1 e1), Read_memory a2 8,
                 Print (Entry_at PDPT a2 e2), Read_memory a3 8,
                 Print (Failed_to_read_memory_at a3)]\<rparr>"
  | (AbsentAt_PD) cr3_val a1 e1 a2 e2 a3 e3 where
      "parse_and_eval_int g ''$cr3'' = Some cr3_val"
      "a1 = (cr3_val AND 0xFFFFFFFFF000) + pml4_index (decode vaddr) * 8"
      "fst (read_entry g a1) = Some e1"
      "bit e1 0"
      "a2 = (e1 AND 0xFFFFFFFFF000) + pdpt_index (decode vaddr) * 8"
      "fst (read_entry g a2) = Some e2"
      "bit e2 0"
      "\<not> bit e2 7"
      "a3 = (e2 AND 0xFFFFFFFFF000) + pd_index (decode vaddr) * 8"
      "fst (read_entry g a3) = Some e3"
      "\<not> bit e3 0"
      "ptwalk_vaddr g vaddr
         = \<lparr>outcome = AbsentAt PD,
            log = prologue cr3_val vaddr
              @ [Read_memory a1 8, Print (Entry_at PML4 a1 e1), Read_memory a2 8,
                 Print (Entry_at PDPT a2 e2), Read_memory a3 8,
                 Print (Entry_at PD a3 e3), Print (Entry_not_present PD)]\<rparr>"
  | (Done_2MiB) cr3_val a1 e1 a2 e2 a3 e3 where
      "parse_and_eval_int g ''$cr3'' = Some cr3_val"
      "a1 = (cr3_val AND 0xFFFFFFFFF000) + pml4_index (decode vaddr) * 8"
      "fst (read_entry g a1) = Some e1"
      "bit e1 0"
      "a2 = (e1 AND 0xFFFFFFFFF000) + pdpt_index (decode vaddr) * 8"
      "fst (read_entry g a2) = Some e2"
      "bit e2 0"
      "\<not> bit e2 7"
      "a3 = (e2 AND 0xFFFFFFFFF000) + pd_index (decode vaddr) * 8"
      "fst (read_entry g a3) = Some e3"
      "bit e3 0"
      "bit e3 7"
      "ptwalk_vaddr g vaddr
         = \<lparr>outcome = Done ((e3 AND 0xFFFFFFE00000) + (vaddr AND 0x1FFFFF)) Page_2MiB,
            log = prologue cr3_val vaddr
              @ [Read_memory a1 8, Print (Entry_at PML4 a1 e1), Read_memory a2 8,
                 Print (Entry_at PDPT a2 e2), Read_memory a3 8,
                 Print (Entry_at PD a3 e3), Print Page_2MB_detected,
                 Print (Physical_Address_is ((e3 AND 0xFFFFFFE00000) + (vaddr AND 0x1FFFFF)))]\<rparr>"
  | (ReadFailedAt_PT) cr3_val a1 e1 a2 e2 a3 e3 a4 where
      "parse_and_eval_int g ''$cr3'' = Some cr3_val"
      "a1 = (cr3_val AND 0xFFFFFFFFF000) + pml4_index (decode vaddr) * 8"
      "fst (read_entry g a1) = Some e1"
      "bit e1 0"
      "a2 = (e1 AND 0xFFFFFFFFF000) + pdpt_index (decode vaddr) * 8"
      "fst (read_entry g a2) = Some e2"
      "bit e2 0"
      "\<not> bit e2 7"
      "a3 = (e2 AND 0xFFFFFFFFF000) + pd_index (decode vaddr) * 8"
      "fst (read_entry g a3) = Some e3"
      "bit e3 0"
      "\<not> bit e3 7"
      "a4 = (e3 AND 0xFFFFFFFFF000) + pt_index (decode vaddr) * 8"
      "fst (read_entry g a4) = None"
      "ptwalk_vaddr g vaddr
         = \<lparr>outcome = ReadFailedAt PT a4,
            log = prologue cr3_val vaddr
              @ [Read_memory a1 8, Print (Entry_at PML4 a1 e1), Read_memory a2 8,
                 Print (Entry_at PDPT a2 e2), Read_memory a3 8,
                 Print (Entry_at PD a3 e3), Read_memory a4 8,
                 Print (Failed_to_read_memory_at a4)]\<rparr>"
  | (AbsentAt_PT) cr3_val a1 e1 a2 e2 a3 e3 a4 e4 where
      "parse_and_eval_int g ''$cr3'' = Some cr3_val"
      "a1 = (cr3_val AND 0xFFFFFFFFF000) + pml4_index (decode vaddr) * 8"
      "fst (read_entry g a1) = Some e1"
      "bit e1 0"
      "a2 = (e1 AND 0xFFFFFFFFF000) + pdpt_index (decode vaddr) * 8"
      "fst (read_entry g a2) = Some e2"
      "bit e2 0"
      "\<not> bit e2 7"
      "a3 = (e2 AND 0xFFFFFFFFF000) + pd_index (decode vaddr) * 8"
      "fst (read_entry g a3) = Some e3"
      "bit e3 0"
      "\<not> bit e3 7"
      "a4 = (e3 AND 0xFFFFFFFFF000) + pt_index (decode vaddr) * 8"
      "fst (read_entry g a4) = Some e4"
      "\<not> bit e4 0"
      "ptwalk_vaddr g vaddr
         = \<lparr>outcome = AbsentAt PT,
            log = prologue cr3_val vaddr
              @ [Read_memory a1 8, Print (Entry_at PML4 a1 e1), Read_memory a2 8,
                 Print (Entry_at PDPT a2 e2), Read_memory a3 8,
                 Print (Entry_at PD a3 e3), Read_memory a4 8,
                 Print (Entry_at PT a4 e4), Print (Entry_not_present PT)]\<rparr>"
  | (Done_4KiB) cr3_val a1 e1 a2 e2 a3 e3 a4 e4 where
      "parse_and_eval_int g ''$cr3'' = Some cr3_val"
      "a1 = (cr3_val AND 0xFFFFFFFFF000) + pml4_index (decode vaddr) * 8"
      "fst (read_entry g a1) = Some e1"
      "bit e1 0"
      "a2 = (e1 AND 0xFFFFFFFFF000) + pdpt_index (decode vaddr) * 8"
      "fst (read_entry g a2) = Some e2"
      "bit e2 0"
      "\<not> bit e2 7"
      "a3 = (e2 AND 0xFFFFFFFFF000) + pd_index (decode vaddr) * 8"
      "fst (read_entry g a3) = Some e3"
      "bit e3 0"
      "\<not> bit e3 7"
      "a4 = (e3 AND 0xFFFFFFFFF000) + pt_index (decode vaddr) * 8"
      "fst (read_entry g a4) = Some e4"
      "bit e4 0"
      "ptwalk_vaddr g vaddr
         = \<lparr>outcome = Done ((e4 AND 0xFFFFFFFFF000) + page_offset (decode vaddr)) Page_4KiB,
            log = prologue cr3_val vaddr
              @ [Read_memory a1 8, Print (Entry_at PML4 a1 e1), Read_memory a2 8,
                 Print (Entry_at PDPT a2 e2), Read_memory a3 8,
                 Print (Entry_at PD a3 e3), Read_memory a4 8,
                 Print (Entry_at PT a4 e4),
                 Print (Physical_Address_is ((e4 AND 0xFFFFFFFFF000) + page_offset (decode vaddr)))]\<rparr>"
proof (cases "parse_and_eval_int g ''$cr3''")
  case None
  then have F0: "parse_and_eval_int g ''$cr3'' = None" .
  show ?thesis
    by (rule that(1) [OF F0 no_register [OF F0]])
next
  case (Some cr3_val)
  then have reg: "parse_and_eval_int g ''$cr3'' = Some cr3_val" .
  define a1 where "a1 = (cr3_val AND 0xFFFFFFFFF000) + pml4_index (decode vaddr) * 8"
  note A1 = a1_def
  show ?thesis
  proof (cases "fst (read_entry g a1)")
    case None
    then have F1: "fst (read_entry g a1) = None" .
    show ?thesis
      by (rule that(2) [OF reg A1 F1 unreadable_PML4 [OF reg A1 F1]])
  next
    case (Some e1)
    then have R1: "fst (read_entry g a1) = Some e1" .
    show ?thesis
    proof (cases "bit e1 0")
      case False
      then have N1: "\<not> bit e1 0" .
      show ?thesis
        by (rule that(3) [OF reg A1 R1 N1 absent_at_PML4 [OF reg A1 R1 N1]])
    next
      case True
      then have P1: "bit e1 0" .
      define a2 where "a2 = (e1 AND 0xFFFFFFFFF000) + pdpt_index (decode vaddr) * 8"
      note A2 = a2_def
      show ?thesis
      proof (cases "fst (read_entry g a2)")
        case None
        then have F2: "fst (read_entry g a2) = None" .
        show ?thesis
          by (rule that(4) [OF reg A1 R1 P1 A2 F2 unreadable_PDPT [OF reg A1 R1 P1 A2 F2]])
      next
        case (Some e2)
        then have R2: "fst (read_entry g a2) = Some e2" .
        show ?thesis
        proof (cases "bit e2 0")
          case False
          then have N2: "\<not> bit e2 0" .
          show ?thesis
            by (rule that(5) [OF reg A1 R1 P1 A2 R2 N2 absent_at_PDPT [OF reg A1 R1 P1 A2 R2 N2]])
        next
          case True
          then have P2: "bit e2 0" .
          show ?thesis
          proof (cases "bit e2 7")
            case True
            then have H2: "bit e2 7" .
            show ?thesis
              by (rule that(6) [OF reg A1 R1 P1 A2 R2 P2 H2 page_1GiB [OF reg A1 R1 P1 A2 R2 P2 H2]])
          next
            case False
            then have S2: "\<not> bit e2 7" .
            define a3 where "a3 = (e2 AND 0xFFFFFFFFF000) + pd_index (decode vaddr) * 8"
            note A3 = a3_def
            show ?thesis
            proof (cases "fst (read_entry g a3)")
              case None
              then have F3: "fst (read_entry g a3) = None" .
              show ?thesis
                by (rule that(7) [OF reg A1 R1 P1 A2 R2 P2 S2 A3 F3 unreadable_PD [OF reg A1 R1 P1 A2 R2 P2 S2 A3 F3]])
            next
              case (Some e3)
              then have R3: "fst (read_entry g a3) = Some e3" .
              show ?thesis
              proof (cases "bit e3 0")
                case False
                then have N3: "\<not> bit e3 0" .
                show ?thesis
                  by (rule that(8) [OF reg A1 R1 P1 A2 R2 P2 S2 A3 R3 N3 absent_at_PD [OF reg A1 R1 P1 A2 R2 P2 S2 A3 R3 N3]])
              next
                case True
                then have P3: "bit e3 0" .
                show ?thesis
                proof (cases "bit e3 7")
                  case True
                  then have H3: "bit e3 7" .
                  show ?thesis
                    by (rule that(9) [OF reg A1 R1 P1 A2 R2 P2 S2 A3 R3 P3 H3 page_2MiB [OF reg A1 R1 P1 A2 R2 P2 S2 A3 R3 P3 H3]])
                next
                  case False
                  then have S3: "\<not> bit e3 7" .
                  define a4 where "a4 = (e3 AND 0xFFFFFFFFF000) + pt_index (decode vaddr) * 8"
                  note A4 = a4_def
                  show ?thesis
                  proof (cases "fst (read_entry g a4)")
                    case None
                    then have F4: "fst (read_entry g a4) = None" .
                    show ?thesis
                      by (rule that(10) [OF reg A1 R1 P1 A2 R2 P2 S2 A3 R3 P3 S3 A4 F4 unreadable_PT [OF reg A1 R1 P1 A2 R2 P2 S2 A3 R3 P3 S3 A4 F4]])
                  next
                    case (Some e4)
                    then have R4: "fst (read_entry g a4) = Some e4" .
                    show ?thesis
                    proof (cases "bit e4 0")
                      case False
                      then have N4: "\<not> bit e4 0" .
                      show ?thesis
                        by (rule that(11) [OF reg A1 R1 P1 A2 R2 P2 S2 A3 R3 P3 S3 A4 R4 N4 absent_at_PT [OF reg A1 R1 P1 A2 R2 P2 S2 A3 R3 P3 S3 A4 R4 N4]])
                    next
                      case True
                      then have P4: "bit e4 0" .
                      show ?thesis
                        by (rule that(12) [OF reg A1 R1 P1 A2 R2 P2 S2 A3 R3 P3 S3 A4 R4 P4 page_4KiB [OF reg A1 R1 P1 A2 R2 P2 S2 A3 R3 P3 S3 A4 R4 P4]])
                    qed
                  qed
                qed
              qed
            qed
          qed
        qed
      qed
    qed
  qed
qed

subsection \<open>What every run has\<close>



lemma ptwalk_vaddr_not_InvalidAddress: "outcome (ptwalk_vaddr g vaddr) \<noteq> InvalidAddress"
  by (cases g vaddr rule: walk_cases) simp_all


lemma bits_of_low_bits: "hi < n \<Longrightarrow> bits (x mod 2 ^ n) hi lo = bits x hi lo"
  unfolding bits_take_drop take_bit_eq_mod [symmetric]
  by (rule bit_eqI) (auto simp add: bit_simps)

lemma low_48_bits:
  assumes "bits v 47 0 = bits v' 47 0"
  shows "decode v = decode v'"
    and "v AND 0x3FFFFFFF = v' AND 0x3FFFFFFF"
    and "v AND 0x1FFFFF = v' AND 0x1FFFFF"
proof -
  have m: "v mod 2 ^ 48 = v' mod 2 ^ 48"
    using assms by (simp add: bits_def)
  have b: "bits v hi lo = bits v' hi lo" if "hi < 48" for hi lo
    using bits_of_low_bits [OF that, of v lo] bits_of_low_bits [OF that, of v' lo] m by simp
  show "decode v = decode v'"
    by (simp add: decode_def index_bits [of 39] index_bits [of 30] index_bits [of 21]
        index_bits [of 12] offset_bits b)
  show "v AND 0x3FFFFFFF = v' AND 0x3FFFFFFF"
    by (simp add: and_0x3FFFFFFF b)
  show "v AND 0x1FFFFF = v' AND 0x1FFFFF"
    by (simp add: and_0x1FFFFF b)
qed

lemma ptwalk_vaddr_low_48_bits:
  assumes "bits v 47 0 = bits v' 47 0"
  shows "outcome (ptwalk_vaddr g v) = outcome (ptwalk_vaddr g v')
       \<and> reads (log (ptwalk_vaddr g v)) = reads (log (ptwalk_vaddr g v'))
       \<and> trace (log (ptwalk_vaddr g v)) = trace (log (ptwalk_vaddr g v'))
       \<and> remove1 (Print (Virtual_Address_is v)) (log (ptwalk_vaddr g v))
           = remove1 (Print (Virtual_Address_is v')) (log (ptwalk_vaddr g v'))"
proof -
  note d = low_48_bits [OF assms]
  show ?thesis
  proof (cases g v rule: walk_cases)
    case RegisterUnavailable
    then show ?thesis
      using no_register [of g v'] by simp
  next
    case (ReadFailedAt_PML4 cr3_val a1)
    note r = unreadable_PML4 [OF ReadFailedAt_PML4(1-3) [unfolded d(1)]]
    show ?thesis
      unfolding ReadFailedAt_PML4(4) r by (simp add: prologue_def d)
  next
    case (AbsentAt_PML4 cr3_val a1 e1)
    note r = absent_at_PML4 [OF AbsentAt_PML4(1-4) [unfolded d(1)]]
    show ?thesis
      unfolding AbsentAt_PML4(5) r by (simp add: prologue_def d)
  next
    case (ReadFailedAt_PDPT cr3_val a1 e1 a2)
    note r = unreadable_PDPT [OF ReadFailedAt_PDPT(1-6) [unfolded d(1)]]
    show ?thesis
      unfolding ReadFailedAt_PDPT(7) r by (simp add: prologue_def d)
  next
    case (AbsentAt_PDPT cr3_val a1 e1 a2 e2)
    note r = absent_at_PDPT [OF AbsentAt_PDPT(1-7) [unfolded d(1)]]
    show ?thesis
      unfolding AbsentAt_PDPT(8) r by (simp add: prologue_def d)
  next
    case (Done_1GiB cr3_val a1 e1 a2 e2)
    note r = page_1GiB [OF Done_1GiB(1-8) [unfolded d(1)]]
    show ?thesis
      unfolding Done_1GiB(9) r by (simp add: prologue_def d)
  next
    case (ReadFailedAt_PD cr3_val a1 e1 a2 e2 a3)
    note r = unreadable_PD [OF ReadFailedAt_PD(1-10) [unfolded d(1)]]
    show ?thesis
      unfolding ReadFailedAt_PD(11) r by (simp add: prologue_def d)
  next
    case (AbsentAt_PD cr3_val a1 e1 a2 e2 a3 e3)
    note r = absent_at_PD [OF AbsentAt_PD(1-11) [unfolded d(1)]]
    show ?thesis
      unfolding AbsentAt_PD(12) r by (simp add: prologue_def d)
  next
    case (Done_2MiB cr3_val a1 e1 a2 e2 a3 e3)
    note r = page_2MiB [OF Done_2MiB(1-12) [unfolded d(1)]]
    show ?thesis
      unfolding Done_2MiB(13) r by (simp add: prologue_def d)
  next
    case (ReadFailedAt_PT cr3_val a1 e1 a2 e2 a3 e3 a4)
    note r = unreadable_PT [OF ReadFailedAt_PT(1-14) [unfolded d(1)]]
    show ?thesis
      unfolding ReadFailedAt_PT(15) r by (simp add: prologue_def d)
  next
    case (AbsentAt_PT cr3_val a1 e1 a2 e2 a3 e3 a4 e4)
    note r = absent_at_PT [OF AbsentAt_PT(1-15) [unfolded d(1)]]
    show ?thesis
      unfolding AbsentAt_PT(16) r by (simp add: prologue_def d)
  next
    case (Done_4KiB cr3_val a1 e1 a2 e2 a3 e3 a4 e4)
    note r = page_4KiB [OF Done_4KiB(1-15) [unfolded d(1)]]
    show ?thesis
      unfolding Done_4KiB(16) r by (simp add: prologue_def d)
  qed
qed

subsection \<open>The address decoder\<close>

text \<open>
  C5. For every virtual address (every integer, so every 64-bit one) the indices computed
  on lines 54 to 58 are the bit fields 47:39, 38:30, 29:21 and 20:12 of the address, each
  a number of 9 bits, and the offset is bits 11:0, a number of 12 bits; shifting the five
  back into place and joining them gives the low 48 bits of the address.
\<close>

theorem decode_bit_fields:
  "pml4_index (decode v) = bits v 47 39 \<and> pdpt_index (decode v) = bits v 38 30
   \<and> pd_index (decode v) = bits v 29 21 \<and> pt_index (decode v) = bits v 20 12
   \<and> page_offset (decode v) = bits v 11 0
   \<and> 0 \<le> pml4_index (decode v) \<and> pml4_index (decode v) < 2 ^ 9
   \<and> 0 \<le> pdpt_index (decode v) \<and> pdpt_index (decode v) < 2 ^ 9
   \<and> 0 \<le> pd_index (decode v) \<and> pd_index (decode v) < 2 ^ 9
   \<and> 0 \<le> pt_index (decode v) \<and> pt_index (decode v) < 2 ^ 9
   \<and> 0 \<le> page_offset (decode v) \<and> page_offset (decode v) < 2 ^ 12
   \<and> (push_bit 39 (pml4_index (decode v)) OR push_bit 30 (pdpt_index (decode v))
        OR push_bit 21 (pd_index (decode v)) OR push_bit 12 (pt_index (decode v))
        OR page_offset (decode v)) = v mod 2 ^ 48"
proof -
  have 0: "0 \<le> bits v hi lo \<and> bits v hi lo < 2 ^ (Suc hi - lo)" for hi lo
    by (simp add: bits_def)
  have 1: "pml4_index (decode v) = bits v 47 39"
    using index_bits [of 39 v] by (simp add: decode_def)
  have 2: "pdpt_index (decode v) = bits v 38 30"
    using index_bits [of 30 v] by (simp add: decode_def)
  have 3: "pd_index (decode v) = bits v 29 21"
    using index_bits [of 21 v] by (simp add: decode_def)
  have 4: "pt_index (decode v) = bits v 20 12"
    using index_bits [of 12 v] by (simp add: decode_def)
  have 5: "page_offset (decode v) = bits v 11 0"
    using offset_bits [of v] by (simp add: decode_def)
  have 6: "bits v 47 0 = v mod 2 ^ 48"
    by (simp add: bits_def)
  show ?thesis
    unfolding 1 2 3 4 5
    using reassemble [of v] 6 0 [of 47 39] 0 [of 38 30] 0 [of 29 21] 0 [of 20 12] 0 [of 11 0]
    by simp
qed

subsection \<open>The example image, evaluated\<close>

lemma example_args: "string_to_argv example_gdb ''0x8080604123'' = [''0x8080604123'']"
  "string_to_argv example_gdb ''0x8052345678'' = [''0x8052345678'']"
  "string_to_argv example_gdb ''0x8080212345'' = [''0x8080212345'']"
  "string_to_argv example_gdb ''0x8080412345'' = [''0x8080412345'']"
  "string_to_argv example_gdb ''0x10040000000'' = [''0x10040000000'']"
  "string_to_argv example_gdb ''0'' = [''0'']"
  "string_to_argv example_gdb ''0x8000000000'' = [''0x8000000000'']"
  "string_to_argv example_gdb ''0x8080000000'' = [''0x8080000000'']"
  "string_to_argv example_gdb ''0x8080600000'' = [''0x8080600000'']"
  "string_to_argv example_gdb ''-5'' = [''-5'']"
  "string_to_argv example_gdb ''18446744073709551616'' = [''18446744073709551616'']"
  "string_to_argv example_gdb ''0xABCD008080604123'' = [''0xABCD008080604123'']"
  by (simp_all add: example_gdb_def words_of_def)

lemma example_parse:
  "py_int_base0 (int_max_str_digits example_gdb) ''0x8080604123'' = Some 0x8080604123"
  "py_int_base0 (int_max_str_digits example_gdb) ''0x8052345678'' = Some 0x8052345678"
  "py_int_base0 (int_max_str_digits example_gdb) ''0x8080212345'' = Some 0x8080212345"
  "py_int_base0 (int_max_str_digits example_gdb) ''0x8080412345'' = Some 0x8080412345"
  "py_int_base0 (int_max_str_digits example_gdb) ''0x10040000000'' = Some 0x10040000000"
  "py_int_base0 (int_max_str_digits example_gdb) ''0'' = Some 0"
  "py_int_base0 (int_max_str_digits example_gdb) ''0x8000000000'' = Some 0x8000000000"
  "py_int_base0 (int_max_str_digits example_gdb) ''0x8080000000'' = Some 0x8080000000"
  "py_int_base0 (int_max_str_digits example_gdb) ''0x8080600000'' = Some 0x8080600000"
  "py_int_base0 (int_max_str_digits example_gdb) ''-5'' = Some (- 5)"
  "py_int_base0 (int_max_str_digits example_gdb) ''18446744073709551616''
     = Some 18446744073709551616"
  "py_int_base0 (int_max_str_digits example_gdb) ''0xABCD008080604123''
     = Some 0xABCD008080604123"
  by (simp_all add: py_int_base0_def py_isspace_def char_at_def digit_value_def)

lemma example_cr3: "parse_and_eval_int example_gdb ''$cr3'' = Some 0x1018"
  by (simp add: example_gdb_def)

lemma example_entries:
  "fst (read_entry example_gdb 0x1000) = Some 0x2002"
  "fst (read_entry example_gdb 0x1008) = Some 0x2003"
  "fst (read_entry example_gdb 0x1010) = Some 0x1000000002003"
  "fst (read_entry example_gdb 0x2000) = Some 0"
  "fst (read_entry example_gdb 0x2008) = Some 0x80010000400000E3"
  "fst (read_entry example_gdb 0x2010) = Some 0x3003"
  "fst (read_entry example_gdb 0x3000) = Some 0x4002"
  "fst (read_entry example_gdb 0x3008) = Some 0xE00083"
  "fst (read_entry example_gdb 0x3010) = Some 0x1000000E00083"
  "fst (read_entry example_gdb 0x3018) = Some 0x4003"
  "fst (read_entry example_gdb 0x4000) = Some 0"
  "fst (read_entry example_gdb 0x4020) = Some 0x8000000000005003"
  by (simp_all add: read_entry_def example_gdb_def example_memory_def entry_size_def
      from_bytes_little_def)

subsection \<open>Translations\<close>



text \<open>
  C2. Whatever the address and the debugger: when the PDPT entry is read with bit 0 and
  bit 7 set (behind a PML4 entry that is present), the walk ends with a 1 GiB page at
  the PDPT entry masked to bits 51:30 plus the low 30 bits of the address, after two
  reads: nothing is read for the PD and PT levels.
\<close>

theorem huge_page_1GiB:
  assumes "string_to_argv g arg = [a]"
    and "py_int_base0 (int_max_str_digits g) a = Some vaddr"
    and "parse_and_eval_int g ''$cr3'' = Some cr3_val"
    and "a1 = (cr3_val AND 0xFFFFFFFFF000) + pml4_index (decode vaddr) * 8"
    and "fst (read_entry g a1) = Some e1" and "bit e1 0"
    and "a2 = (e1 AND 0xFFFFFFFFF000) + pdpt_index (decode vaddr) * 8"
    and "fst (read_entry g a2) = Some e2" and "bit e2 0" and "bit e2 7"
  shows "outcome (ptwalk g arg) = Done (masked_to_bits e2 51 30 + bits vaddr 29 0) Page_1GiB
       \<and> trace (log (ptwalk g arg)) = [(PML4, a1, e1), (PDPT, a2, e2)]
       \<and> reads (log (ptwalk g arg)) = [a1, a2]"
  by (simp add: ptwalk_parsed [OF assms(1,2)] page_1GiB [OF assms(3-10)] prologue_def
      and_0xFFFFFC0000000 [of e2] and_0x3FFFFFFF [of vaddr])

theorem huge_page_1GiB_witness:
  "outcome (ptwalk example_gdb ''0x8052345678'') = Done 0x1000052345678 Page_1GiB
   \<and> trace (log (ptwalk example_gdb ''0x8052345678''))
       = [(PML4, 0x1008, 0x2003), (PDPT, 0x2008, 0x80010000400000E3)]
   \<and> reads (log (ptwalk example_gdb ''0x8052345678'')) = [0x1008, 0x2008]"
proof -
  have "outcome (ptwalk example_gdb ''0x8052345678'')
          = Done (masked_to_bits 0x80010000400000E3 51 30 + bits 0x8052345678 29 0) Page_1GiB
      \<and> trace (log (ptwalk example_gdb ''0x8052345678''))
          = [(PML4, 0x1008, 0x2003), (PDPT, 0x2008, 0x80010000400000E3)]
      \<and> reads (log (ptwalk example_gdb ''0x8052345678'')) = [0x1008, 0x2008]"
    by (rule huge_page_1GiB [where a = "''0x8052345678''" and cr3_val = "0x1018"])
      (simp_all add: example_args example_parse example_cr3 example_entries decode_def)
  then show ?thesis
    by (simp add: masked_to_bits_def bits_def)
qed

text \<open>
  C3. The claim is that a 2 MiB page is found at the PD entry masked to bits 51:21, bits
  51:48 kept. Line 130 masks with \<open>0xFFFFFFE00000\<close>, which is bits 47:21, while line 111
  keeps bits 51:30 of a 1 GiB entry. On the example image the PD entry
  \<open>0x1000000E00083\<close> (present, huge, bit 48 set) maps the address \<open>0x8080412345\<close> to
  \<open>0xE12345\<close>, where bits 51:21 of the entry give \<open>0x1000000E12345\<close>.
\<close>

theorem huge_page_2MiB_loses_bits_51_48:
  "outcome (ptwalk example_gdb ''0x8080412345'') = Done 0xE12345 Page_2MiB
   \<and> trace (log (ptwalk example_gdb ''0x8080412345''))
       = [(PML4, 0x1008, 0x2003), (PDPT, 0x2010, 0x3003), (PD, 0x3010, 0x1000000E00083)]
   \<and> reads (log (ptwalk example_gdb ''0x8080412345'')) = [0x1008, 0x2010, 0x3010]
   \<and> bit (0x1000000E00083 :: int) 0 \<and> bit (0x1000000E00083 :: int) 7
   \<and> masked_to_bits 0x1000000E00083 51 21 + bits 0x8080412345 20 0 = 0x1000000E12345"
proof -
  have "ptwalk_vaddr example_gdb 0x8080412345
          = \<lparr>outcome = Done ((0x1000000E00083 AND 0xFFFFFFE00000)
                              + (0x8080412345 AND 0x1FFFFF)) Page_2MiB,
             log = prologue 0x1018 0x8080412345
               @ [Read_memory 0x1008 8, Print (Entry_at PML4 0x1008 0x2003),
                  Read_memory 0x2010 8, Print (Entry_at PDPT 0x2010 0x3003),
                  Read_memory 0x3010 8, Print (Entry_at PD 0x3010 0x1000000E00083),
                  Print Page_2MB_detected,
                  Print (Physical_Address_is ((0x1000000E00083 AND 0xFFFFFFE00000)
                                              + (0x8080412345 AND 0x1FFFFF)))]\<rparr>"
    by (rule page_2MiB) (simp_all add: example_cr3 example_entries decode_def)
  then show ?thesis
    by (simp add: ptwalk_parsed [OF example_args(4) example_parse(4)] prologue_def
        masked_to_bits_def bits_def)
qed

text \<open>
  C4. The claim is that every table base is the register or entry masked to bits 51:12,
  bits 51:48 kept. Lines 84, 98, 117 and 136 mask with \<open>0xFFFFFFFFF000\<close>, which is bits
  47:12. On the example image the PML4 entry \<open>0x1000000002003\<close> (present, bit 48 set)
  sends the walk for the address \<open>0x10040000000\<close> to the PDPT entry at \<open>0x2008\<close>, where
  bits 51:12 of the entry give \<open>0x1000000002008\<close>.
\<close>

theorem table_base_loses_bits_51_48:
  "trace (log (ptwalk example_gdb ''0x10040000000''))
       = [(PML4, 0x1010, 0x1000000002003), (PDPT, 0x2008, 0x80010000400000E3)]
   \<and> reads (log (ptwalk example_gdb ''0x10040000000'')) = [0x1010, 0x2008]
   \<and> bit (0x1000000002003 :: int) 0
   \<and> masked_to_bits 0x1000000002003 51 12 + bits 0x10040000000 38 30 * 8 = 0x1000000002008"
proof -
  have "ptwalk_vaddr example_gdb 0x10040000000
          = \<lparr>outcome = Done ((0x80010000400000E3 AND 0xFFFFFC0000000)
                              + (0x10040000000 AND 0x3FFFFFFF)) Page_1GiB,
             log = prologue 0x1018 0x10040000000
               @ [Read_memory 0x1010 8, Print (Entry_at PML4 0x1010 0x1000000002003),
                  Read_memory 0x2008 8, Print (Entry_at PDPT 0x2008 0x80010000400000E3),
                  Print Page_1GB_detected,
                  Print (Physical_Address_is ((0x80010000400000E3 AND 0xFFFFFC0000000)
                                              + (0x10040000000 AND 0x3FFFFFFF)))]\<rparr>"
    by (rule page_1GiB) (simp_all add: example_cr3 example_entries decode_def)
  then show ?thesis
    by (simp add: ptwalk_parsed [OF example_args(5) example_parse(5)] prologue_def
        masked_to_bits_def bits_def)
qed

subsection \<open>Absent entries\<close>

text \<open>
  C6. For each of the four levels: when the entry read at that level has bit 0 clear,
  behind entries that are present and not huge at the levels before, the walk stops
  with the entry reported absent at that level, it has printed one entry line for each
  level up to and including that one, and it has read nothing for any level after it.
\<close>

theorem absent_entry_aborts:
  assumes "string_to_argv g arg = [a]"
    and "py_int_base0 (int_max_str_digits g) a = Some vaddr"
    and "parse_and_eval_int g ''$cr3'' = Some cr3_val"
    and "a1 = (cr3_val AND 0xFFFFFFFFF000) + pml4_index (decode vaddr) * 8"
    and "a2 = (e1 AND 0xFFFFFFFFF000) + pdpt_index (decode vaddr) * 8"
    and "a3 = (e2 AND 0xFFFFFFFFF000) + pd_index (decode vaddr) * 8"
    and "a4 = (e3 AND 0xFFFFFFFFF000) + pt_index (decode vaddr) * 8"
  shows "(fst (read_entry g a1) = Some e1 \<and> \<not> bit e1 0 \<longrightarrow>
            outcome (ptwalk g arg) = AbsentAt PML4
          \<and> trace (log (ptwalk g arg)) = [(PML4, a1, e1)]
          \<and> reads (log (ptwalk g arg)) = [a1])
       \<and> (fst (read_entry g a1) = Some e1 \<and> bit e1 0
          \<and> fst (read_entry g a2) = Some e2 \<and> \<not> bit e2 0 \<longrightarrow>
            outcome (ptwalk g arg) = AbsentAt PDPT
          \<and> trace (log (ptwalk g arg)) = [(PML4, a1, e1), (PDPT, a2, e2)]
          \<and> reads (log (ptwalk g arg)) = [a1, a2])
       \<and> (fst (read_entry g a1) = Some e1 \<and> bit e1 0
          \<and> fst (read_entry g a2) = Some e2 \<and> bit e2 0 \<and> \<not> bit e2 7
          \<and> fst (read_entry g a3) = Some e3 \<and> \<not> bit e3 0 \<longrightarrow>
            outcome (ptwalk g arg) = AbsentAt PD
          \<and> trace (log (ptwalk g arg)) = [(PML4, a1, e1), (PDPT, a2, e2), (PD, a3, e3)]
          \<and> reads (log (ptwalk g arg)) = [a1, a2, a3])
       \<and> (fst (read_entry g a1) = Some e1 \<and> bit e1 0
          \<and> fst (read_entry g a2) = Some e2 \<and> bit e2 0 \<and> \<not> bit e2 7
          \<and> fst (read_entry g a3) = Some e3 \<and> bit e3 0 \<and> \<not> bit e3 7
          \<and> fst (read_entry g a4) = Some e4 \<and> \<not> bit e4 0 \<longrightarrow>
            outcome (ptwalk g arg) = AbsentAt PT
          \<and> trace (log (ptwalk g arg))
              = [(PML4, a1, e1), (PDPT, a2, e2), (PD, a3, e3), (PT, a4, e4)]
          \<and> reads (log (ptwalk g arg)) = [a1, a2, a3, a4])"
proof -
  note w = ptwalk_parsed [OF assms(1,2)]
  have "outcome (ptwalk g arg) = AbsentAt PML4
      \<and> trace (log (ptwalk g arg)) = [(PML4, a1, e1)]
      \<and> reads (log (ptwalk g arg)) = [a1]"
    if "fst (read_entry g a1) = Some e1" "\<not> bit e1 0"
    by (simp add: w absent_at_PML4 [OF assms(3,4) that] prologue_def)
  moreover have "outcome (ptwalk g arg) = AbsentAt PDPT
      \<and> trace (log (ptwalk g arg)) = [(PML4, a1, e1), (PDPT, a2, e2)]
      \<and> reads (log (ptwalk g arg)) = [a1, a2]"
    if "fst (read_entry g a1) = Some e1" "bit e1 0" "fst (read_entry g a2) = Some e2" "\<not> bit e2 0"
    by (simp add: w absent_at_PDPT [OF assms(3,4) that(1,2) assms(5) that(3,4)] prologue_def)
  moreover have "outcome (ptwalk g arg) = AbsentAt PD
      \<and> trace (log (ptwalk g arg)) = [(PML4, a1, e1), (PDPT, a2, e2), (PD, a3, e3)]
      \<and> reads (log (ptwalk g arg)) = [a1, a2, a3]"
    if "fst (read_entry g a1) = Some e1" "bit e1 0" "fst (read_entry g a2) = Some e2"
      "bit e2 0" "\<not> bit e2 7" "fst (read_entry g a3) = Some e3" "\<not> bit e3 0"
    by (simp add: w prologue_def
        absent_at_PD [OF assms(3,4) that(1,2) assms(5) that(3,4,5) assms(6) that(6,7)])
  moreover have "outcome (ptwalk g arg) = AbsentAt PT
      \<and> trace (log (ptwalk g arg))
          = [(PML4, a1, e1), (PDPT, a2, e2), (PD, a3, e3), (PT, a4, e4)]
      \<and> reads (log (ptwalk g arg)) = [a1, a2, a3, a4]"
    if "fst (read_entry g a1) = Some e1" "bit e1 0" "fst (read_entry g a2) = Some e2"
      "bit e2 0" "\<not> bit e2 7" "fst (read_entry g a3) = Some e3" "bit e3 0" "\<not> bit e3 7"
      "fst (read_entry g a4) = Some e4" "\<not> bit e4 0"
    by (simp add: w prologue_def
        absent_at_PT [OF assms(3,4) that(1,2) assms(5) that(3,4,5) assms(6) that(6,7,8)
          assms(7) that(9,10)])
  ultimately show ?thesis
    by blast
qed

theorem absent_entry_aborts_witness:
  "(outcome (ptwalk example_gdb ''0'') = AbsentAt PML4
    \<and> trace (log (ptwalk example_gdb ''0'')) = [(PML4, 0x1000, 0x2002)]
    \<and> reads (log (ptwalk example_gdb ''0'')) = [0x1000])
   \<and> (outcome (ptwalk example_gdb ''0x8000000000'') = AbsentAt PDPT
    \<and> trace (log (ptwalk example_gdb ''0x8000000000'')) = [(PML4, 0x1008, 0x2003), (PDPT, 0x2000, 0)]
    \<and> reads (log (ptwalk example_gdb ''0x8000000000'')) = [0x1008, 0x2000])
   \<and> (outcome (ptwalk example_gdb ''0x8080000000'') = AbsentAt PD
    \<and> trace (log (ptwalk example_gdb ''0x8080000000''))
        = [(PML4, 0x1008, 0x2003), (PDPT, 0x2010, 0x3003), (PD, 0x3000, 0x4002)]
    \<and> reads (log (ptwalk example_gdb ''0x8080000000'')) = [0x1008, 0x2010, 0x3000])
   \<and> (outcome (ptwalk example_gdb ''0x8080600000'') = AbsentAt PT
    \<and> trace (log (ptwalk example_gdb ''0x8080600000''))
        = [(PML4, 0x1008, 0x2003), (PDPT, 0x2010, 0x3003), (PD, 0x3018, 0x4003), (PT, 0x4000, 0)]
    \<and> reads (log (ptwalk example_gdb ''0x8080600000'')) = [0x1008, 0x2010, 0x3018, 0x4000])"
proof -
  note ex = example_args example_parse example_cr3 example_entries decode_def
  have "outcome (ptwalk example_gdb ''0'') = AbsentAt PML4
    \<and> trace (log (ptwalk example_gdb ''0'')) = [(PML4, 0x1000, 0x2002)]
    \<and> reads (log (ptwalk example_gdb ''0'')) = [0x1000]"
    by (rule absent_entry_aborts [where a = "''0''" and vaddr = 0 and cr3_val = "0x1018"
          and ?e1.0 = "0x2002" and ?e2.0 = 0 and ?e3.0 = 0 and ?e4.0 = 0,
          THEN conjunct1, THEN mp])
      (simp_all add: ex)
  moreover have "outcome (ptwalk example_gdb ''0x8000000000'') = AbsentAt PDPT
    \<and> trace (log (ptwalk example_gdb ''0x8000000000'')) = [(PML4, 0x1008, 0x2003), (PDPT, 0x2000, 0)]
    \<and> reads (log (ptwalk example_gdb ''0x8000000000'')) = [0x1008, 0x2000]"
    by (rule absent_entry_aborts [where a = "''0x8000000000''" and vaddr = "0x8000000000"
          and cr3_val = "0x1018" and ?e1.0 = "0x2003" and ?e2.0 = 0 and ?e3.0 = 0 and ?e4.0 = 0,
          THEN conjunct2, THEN conjunct1, THEN mp])
      (simp_all add: ex)
  moreover have "outcome (ptwalk example_gdb ''0x8080000000'') = AbsentAt PD
    \<and> trace (log (ptwalk example_gdb ''0x8080000000''))
        = [(PML4, 0x1008, 0x2003), (PDPT, 0x2010, 0x3003), (PD, 0x3000, 0x4002)]
    \<and> reads (log (ptwalk example_gdb ''0x8080000000'')) = [0x1008, 0x2010, 0x3000]"
    by (rule absent_entry_aborts [where a = "''0x8080000000''" and vaddr = "0x8080000000"
          and cr3_val = "0x1018" and ?e1.0 = "0x2003" and ?e2.0 = "0x3003" and ?e3.0 = "0x4002"
          and ?e4.0 = 0,
          THEN conjunct2, THEN conjunct2, THEN conjunct1, THEN mp])
      (simp_all add: ex)
  moreover have "outcome (ptwalk example_gdb ''0x8080600000'') = AbsentAt PT
    \<and> trace (log (ptwalk example_gdb ''0x8080600000''))
        = [(PML4, 0x1008, 0x2003), (PDPT, 0x2010, 0x3003), (PD, 0x3018, 0x4003), (PT, 0x4000, 0)]
    \<and> reads (log (ptwalk example_gdb ''0x8080600000'')) = [0x1008, 0x2010, 0x3018, 0x4000]"
    by (rule absent_entry_aborts [where a = "''0x8080600000''" and vaddr = "0x8080600000"
          and cr3_val = "0x1018" and ?e1.0 = "0x2003" and ?e2.0 = "0x3003" and ?e3.0 = "0x4003"
          and ?e4.0 = 0,
          THEN conjunct2, THEN conjunct2, THEN conjunct2, THEN mp])
      (simp_all add: ex)
  ultimately show ?thesis
    by (intro conjI) (elim conjE, assumption)+
qed

subsection \<open>The physical memory mode\<close>


subsection \<open>Addresses outside the canonical and the 64-bit range\<close>

text \<open>
  C9. An address is never rejected for not being canonical, and bits 63:48 (and any bit
  above) have no influence: two addresses that agree on bits 47:0 give, with the same
  debugger, the same indices, the same reads in the same order, the same entry lines and
  the same end, a physical address or a failure. The two logs differ in the echo of
  the address alone.
\<close>

theorem upper_bits_ignored:
  assumes "string_to_argv g arg = [a]"
    and "py_int_base0 (int_max_str_digits g) a = Some v"
    and "string_to_argv g arg' = [a']"
    and "py_int_base0 (int_max_str_digits g) a' = Some v'"
    and "bits v 47 0 = bits v' 47 0"
  shows "decode v = decode v'
       \<and> outcome (ptwalk g arg) = outcome (ptwalk g arg')
       \<and> outcome (ptwalk g arg) \<noteq> InvalidAddress
       \<and> reads (log (ptwalk g arg)) = reads (log (ptwalk g arg'))
       \<and> trace (log (ptwalk g arg)) = trace (log (ptwalk g arg'))
       \<and> remove1 (Print (Virtual_Address_is v)) (log (ptwalk g arg))
           = remove1 (Print (Virtual_Address_is v')) (log (ptwalk g arg'))"
  using low_48_bits(1) [OF assms(5)] ptwalk_vaddr_low_48_bits [OF assms(5), of g]
    ptwalk_vaddr_not_InvalidAddress [of g v]
  by (simp add: ptwalk_parsed [OF assms(1,2)] ptwalk_parsed [OF assms(3,4)])

theorem upper_bits_ignored_witness:
  "decode 0x8080604123 = decode 0xABCD008080604123
   \<and> outcome (ptwalk example_gdb ''0x8080604123'')
       = outcome (ptwalk example_gdb ''0xABCD008080604123'')
   \<and> outcome (ptwalk example_gdb ''0x8080604123'') \<noteq> InvalidAddress
   \<and> reads (log (ptwalk example_gdb ''0x8080604123''))
       = reads (log (ptwalk example_gdb ''0xABCD008080604123''))
   \<and> trace (log (ptwalk example_gdb ''0x8080604123''))
       = trace (log (ptwalk example_gdb ''0xABCD008080604123''))
   \<and> remove1 (Print (Virtual_Address_is 0x8080604123))
         (log (ptwalk example_gdb ''0x8080604123''))
       = remove1 (Print (Virtual_Address_is 0xABCD008080604123))
           (log (ptwalk example_gdb ''0xABCD008080604123''))"
  by (rule upper_bits_ignored [where a = "''0x8080604123''" and a' = "''0xABCD008080604123''"])
    (simp_all add: example_args example_parse bits_def)



subsection \<open>The address argument\<close>









end
